theory Spec2Isabelle
  imports Complex_Main "HOL-Library.Word"
begin

section \<open>The drive-by-wire MPC node\<close>

text \<open>
  A shallow embedding of \<^verbatim>\<open>ros/src/twist_controller/src/dbw_mpc.h\<close>.

  Conventions of the model:
  \<^item> a C++ \<^verbatim>\<open>double\<close> (and the \<^verbatim>\<open>float32\<close> message fields) is a \<^typ>\<open>real\<close>: arithmetic is
    exact, rounding, infinities and NaN are not modelled;
  \<^item> \<^verbatim>\<open>size_t\<close> is a 64-bit word, so \<^verbatim>\<open>closestWaypointIdx+3\<close> wraps as in the source;
  \<^item> the class \<^verbatim>\<open>DbwMpc\<close> is a record, each member function takes the object and
    returns the updated one;
  \<^item> a failed \<^verbatim>\<open>assert\<close> and an unchecked read beyond the end of a buffer are values
    of the type \<open>fault\<close>; a function that can run into either returns \<open>fault + 'a\<close>;
  \<^item> the collaborators whose code is not part of this file are parameters: the
    least-squares solver behind \<^verbatim>\<open>householderQr().solve\<close>, \<^verbatim>\<open>MPC::Solve\<close>, and the index
    returned by \<^verbatim>\<open>getClosestWaypoint\<close>.
\<close>

subsection \<open>Messages\<close>

text \<open>The message layouts are those of the comment at the end of the source file
  (headers left out: no code reads them).\<close>

record Pose =
  position_x :: real
  position_y :: real
  position_z :: real
  orientation_x :: real
  orientation_y :: real
  orientation_z :: real
  orientation_w :: real

record Twist =
  linear_x :: real
  linear_y :: real
  linear_z :: real
  angular_x :: real
  angular_y :: real
  angular_z :: real

record Waypoint =
  wp_pose :: Pose
  wp_twist :: Twist

type_synonym Lane = "Waypoint list"

text \<open>Outbound commands: the fields that \<^verbatim>\<open>run\<close> assigns. The remaining fields of the
  three messages keep the value their default constructor gives them.\<close>

record SteeringCmd =
  steer_enable :: bool
  steering_wheel_angle_cmd :: real

record ThrottleCmd =
  throttle_enable :: bool
  throttle_pedal_cmd_type :: "8 word"
  throttle_pedal_cmd :: real

record BrakeCmd =
  brake_enable :: bool
  brake_pedal_cmd_type :: "8 word"
  brake_pedal_cmd :: real

definition CMD_PERCENT :: "8 word" where
  "CMD_PERCENT = 2"

definition CMD_TORQUE :: "8 word" where
  "CMD_TORQUE = 3"

text \<open>One value per call of \<^verbatim>\<open>publish\<close>: the publisher used and the message sent.\<close>

datatype published =
    Steering_publisher SteeringCmd
  | Throttle_publisher ThrottleCmd
  | Brake_publisher BrakeCmd

fun is_steering :: "published \<Rightarrow> bool" where
  "is_steering (Steering_publisher _) = True"
| "is_steering _ = False"

fun is_throttle :: "published \<Rightarrow> bool" where
  "is_throttle (Throttle_publisher _) = True"
| "is_throttle _ = False"

fun is_brake :: "published \<Rightarrow> bool" where
  "is_brake (Brake_publisher _) = True"
| "is_brake _ = False"

subsection \<open>Faults\<close>

text \<open>
  \<open>AssertionFailed\<close>: an \<^verbatim>\<open>assert\<close> of the source does not hold (the process aborts;
  assertions are taken as compiled in).
  \<open>ReadPastEnd n\<close>: the source reads, with no check, beyond the end of a buffer of \<open>n\<close>
  elements (\<^verbatim>\<open>operator[]\<close> of a vector, or a fixed-size view over its storage). The
  program does not detect this: in C++ the behaviour is undefined. The model stops
  there, since no value of the program is determined any more.
\<close>

datatype fault = AssertionFailed | ReadPastEnd nat

definition vec_read :: "'a list \<Rightarrow> nat \<Rightarrow> fault + 'a" where
  "vec_read buf i = (if i < length buf then Inr (buf ! i) else Inl (ReadPastEnd (length buf)))"

subsection \<open>polyeval and polyfit\<close>

text \<open>\<^verbatim>\<open>polyeval\<close>: the loop adds \<^verbatim>\<open>coeffs[i] * pow(x, i)\<close> for \<open>i\<close> from 0 to the size.\<close>

definition polyeval :: "real list \<Rightarrow> real \<Rightarrow> real" where
  "polyeval coeffs x0 = foldl (\<lambda>result i. result + coeffs ! i * x0 ^ i) 0 [0..<length coeffs]"

text \<open>One row of the matrix \<^verbatim>\<open>A\<close>: \<^verbatim>\<open>A(j, 0) = 1.0\<close>, then
  \<^verbatim>\<open>A(j, i + 1) = A(j, i) * xvals(j)\<close> for \<open>i\<close> below \<open>order\<close>.\<close>

definition matrix_row :: "real \<Rightarrow> nat \<Rightarrow> real list" where
  "matrix_row xj order = foldl (\<lambda>row i. row @ [row ! i * xj]) [1] [0..<order]"

text \<open>
  \<^verbatim>\<open>polyfit\<close>. The two assertions come first; \<^verbatim>\<open>xvals.size() - 1\<close> is signed
  arithmetic (it is \<open>-1\<close> for an empty vector), hence the integers. The solver is the
  parameter \<open>qr_solve\<close>.
\<close>

definition polyfit ::
  "(real list list \<Rightarrow> real list \<Rightarrow> real list) \<Rightarrow> real list \<Rightarrow> real list \<Rightarrow> int \<Rightarrow> fault + real list"
where
  "polyfit qr_solve xvals yvals order =
     (if length xvals \<noteq> length yvals then Inl AssertionFailed
      else if \<not> (order \<ge> 1 \<and> order \<le> int (length xvals) - 1) then Inl AssertionFailed
      else Inr (qr_solve (map (\<lambda>xj. matrix_row xj (nat order)) xvals) yvals))"

definition latency :: real where
  "latency = 0.1"

definition Lf :: real where
  "Lf = 2.67"

subsection \<open>The class DbwMpc\<close>

record DbwMpc =
  waypoint_set :: bool
  velocity_set :: bool
  pose_set :: bool
  enabled :: bool
  waypoints :: Lane
  pose :: Pose
  velocity :: Twist
  steer_value :: real
  throttle_value :: real

definition zero_Pose :: Pose where
  "zero_Pose = \<lparr>position_x = 0, position_y = 0, position_z = 0,
     orientation_x = 0, orientation_y = 0, orientation_z = 0, orientation_w = 0\<rparr>"

definition zero_Twist :: Twist where
  "zero_Twist = \<lparr>linear_x = 0, linear_y = 0, linear_z = 0,
     angular_x = 0, angular_y = 0, angular_z = 0\<rparr>"

text \<open>
  The constructor \<^verbatim>\<open>DbwMpc() : enabled(false) { }\<close>. Its argument is the storage the
  object is built in. The member initialiser list names \<^verbatim>\<open>enabled\<close> only; the message
  members are default-constructed (empty, zero); the three other flags and the two
  command values are scalars with no initialiser and keep what the storage holds.
\<close>

definition DbwMpc_ctor :: "DbwMpc \<Rightarrow> DbwMpc" where
  "DbwMpc_ctor storage =
     storage\<lparr>enabled := False, waypoints := [], pose := zero_Pose, velocity := zero_Twist\<rparr>"

subsubsection \<open>The callbacks\<close>

definition onEnabled :: "bool \<Rightarrow> DbwMpc \<Rightarrow> DbwMpc" where
  "onEnabled isEnabled s = s\<lparr>enabled := isEnabled\<rparr>"

definition onWaypoints :: "Lane \<Rightarrow> DbwMpc \<Rightarrow> DbwMpc" where
  "onWaypoints newWaypoints s = s\<lparr>waypoints := newWaypoints, waypoint_set := True\<rparr>"

definition onPose :: "Pose \<Rightarrow> DbwMpc \<Rightarrow> DbwMpc" where
  "onPose newPose s = s\<lparr>pose := newPose, pose_set := True\<rparr>"

definition onVelocity :: "Twist \<Rightarrow> DbwMpc \<Rightarrow> DbwMpc" where
  "onVelocity newVelocity s = s\<lparr>velocity := newVelocity, velocity_set := True\<rparr>"

text \<open>An inbound message on one of the four subscribed topics, and \<^verbatim>\<open>ros::spinOnce\<close>,
  which calls the callback of each pending message in turn.\<close>

datatype message =
    Enabled_msg bool
  | Waypoints_msg Lane
  | Pose_msg Pose
  | Velocity_msg Twist

fun callback :: "message \<Rightarrow> DbwMpc \<Rightarrow> DbwMpc" where
  "callback (Enabled_msg b) s = onEnabled b s"
| "callback (Waypoints_msg l) s = onWaypoints l s"
| "callback (Pose_msg p) s = onPose p s"
| "callback (Velocity_msg t) s = onVelocity t s"

definition spinOnce :: "message list \<Rightarrow> DbwMpc \<Rightarrow> DbwMpc" where
  "spinOnce pending s = foldl (\<lambda>s' m. callback m s') s pending"

subsubsection \<open>run\<close>

text \<open>The body of the \<^verbatim>\<open>if\<close> of the loop: the steering command, then the throttle
  command or the brake command.\<close>

definition publish_commands :: "DbwMpc \<Rightarrow> published list" where
  "publish_commands s =
     Steering_publisher \<lparr>steer_enable = True, steering_wheel_angle_cmd = steer_value s\<rparr> #
     (if throttle_value s > 0
      then [Throttle_publisher \<lparr>throttle_enable = True, throttle_pedal_cmd_type = CMD_PERCENT,
              throttle_pedal_cmd = throttle_value s\<rparr>]
      else [Brake_publisher \<lparr>brake_enable = True, brake_pedal_cmd_type = CMD_TORQUE,
              brake_pedal_cmd = throttle_value s\<rparr>])"

text \<open>One iteration of \<^verbatim>\<open>while (ros::ok())\<close>: \<^verbatim>\<open>spinOnce\<close> on the messages that are
  pending, then the guarded block. The result is the object after the iteration and what
  the iteration published. (\<^verbatim>\<open>loop_rate.sleep()\<close> has no effect on either.)\<close>

definition loop_iteration :: "message list \<Rightarrow> DbwMpc \<Rightarrow> DbwMpc \<times> published list" where
  "loop_iteration pending s =
     (let s' = spinOnce pending s
      in (s', if enabled s' \<and> velocity_set s' \<and> waypoint_set s' \<and> pose_set s'
              then publish_commands s' else []))"

text \<open>\<^verbatim>\<open>run\<close>: one list of pending messages per iteration; \<^verbatim>\<open>ros::ok()\<close> turns false
  when the list of iterations ends. The result is what each iteration published.\<close>

fun run :: "message list list \<Rightarrow> DbwMpc \<Rightarrow> published list list" where
  "run [] s = []"
| "run (pending # rest) s = (case loop_iteration pending s of (s', out) \<Rightarrow> out # run rest s')"

subsubsection \<open>calculate\<close>

text \<open>
  The first loop of \<^verbatim>\<open>calculate\<close>:
  \<^verbatim>\<open>for (size_t i=closestWaypointIdx; i < closestWaypointIdx+3; i++)\<close>, with \<open>bound\<close> the
  (wrapped) sum. Each round reads \<^verbatim>\<open>waypoints.waypoints[i]\<close> with the unchecked
  \<^verbatim>\<open>operator[]\<close> and appends its position to \<^verbatim>\<open>ptsx\<close> and \<^verbatim>\<open>ptsy\<close>.
\<close>

function window_loop ::
  "Lane \<Rightarrow> 64 word \<Rightarrow> 64 word \<Rightarrow> real list \<times> real list \<Rightarrow> fault + real list \<times> real list"
where
  "window_loop wps i bound (ptsx, ptsy) =
     (if i < bound
      then (case vec_read wps (unat i) of
              Inl e \<Rightarrow> Inl e
            | Inr w \<Rightarrow> window_loop wps (i + 1) bound
                         (ptsx @ [position_x (wp_pose w)], ptsy @ [position_y (wp_pose w)]))
      else Inr (ptsx, ptsy))"
  by pat_completeness auto
termination
proof (relation "measure (\<lambda>(wps, i, bound, acc). unat bound - unat i)")
  show "wf (measure (\<lambda>(wps, i, bound, acc). unat bound - unat i))"
    by simp
next
  fix wps :: Lane and i bound :: "64 word" and ptsx ptsy :: "real list" and w :: Waypoint
  assume "i < bound"
  then have below: "unat i < unat bound"
    by (simp add: word_less_nat_alt)
  moreover have "unat bound < 2 ^ 64"
    using unsigned_less [of bound] by simp
  ultimately have "unat i + unat (1 :: 64 word) < 2 ^ LENGTH(64)"
    by simp
  then have "unat (i + 1) = unat i + unat (1 :: 64 word)"
    by (simp only: unat_add_lem)
  with below
  show "((wps, i + 1, bound, ptsx @ [position_x (wp_pose w)], ptsy @ [position_y (wp_pose w)]),
         (wps, i, bound, ptsx, ptsy)) \<in> measure (\<lambda>(wps, i, bound, acc). unat bound - unat i)"
    by simp
qed

declare window_loop.simps [simp del]

text \<open>
  The second loop: for each index of \<^verbatim>\<open>ptsx\<close>, the point relative to the vehicle,
  rotated by \<open>-psi\<close>. (\<^verbatim>\<open>ptsy\<close> is as long as \<^verbatim>\<open>ptsx\<close>: the first loop grows both
  together, see \<open>window_loop_lengths\<close>.)
\<close>

definition local_frame ::
  "real \<Rightarrow> real \<Rightarrow> real \<Rightarrow> real list \<Rightarrow> real list \<Rightarrow> real list \<times> real list"
where
  "local_frame px py psi ptsx ptsy =
     (map (\<lambda>i. let dx = ptsx ! i - px; dy = ptsy ! i - py
                in dx * cos (- psi) - dy * sin (- psi)) [0..<length ptsx],
      map (\<lambda>i. let dx = ptsx ! i - px; dy = ptsy ! i - py
                in dx * sin (- psi) + dy * cos (- psi)) [0..<length ptsx])"

text \<open>
  \<^verbatim>\<open>Eigen::Map<Eigen::VectorXd>(ptr, n)\<close> over the storage of a vector: a view of the
  \<open>n\<close> doubles that start at \<^verbatim>\<open>ptr\<close>. \<^verbatim>\<open>polyfit\<close> takes its vectors by value, so all
  \<open>n\<close> are read (copied) at the call; those beyond the vector are read past its end.
\<close>

definition eigen_map :: "real list \<Rightarrow> nat \<Rightarrow> fault + real list" where
  "eigen_map buf n = (if n \<le> length buf then Inr (take n buf) else Inl (ReadPastEnd (length buf)))"

text \<open>
  The two errors, lines 148 and 149: \<^verbatim>\<open>cte = polyeval(coeffs, 0)\<close> and
  \<^verbatim>\<open>epsi = -atan(coeffs[1])\<close>. The index of \<^verbatim>\<open>coeffs[1]\<close> is checked by an assertion
  of the vector class.
\<close>

definition error_estimate :: "real list \<Rightarrow> fault + real \<times> real" where
  "error_estimate coeffs =
     (if 1 < length coeffs then Inr (polyeval coeffs 0, - arctan (coeffs ! 1))
      else Inl AssertionFailed)"

text \<open>
  Lines 151 to 161: the state handed to the solver, in the order
  \<^verbatim>\<open>state << px, py, psi, v, cte, epsi\<close>. The arguments are the two errors, the speed
  and the members \<^verbatim>\<open>steer_value\<close> and \<^verbatim>\<open>throttle_value\<close>.
\<close>

definition latency_compensate :: "real \<Rightarrow> real \<Rightarrow> real \<Rightarrow> real \<Rightarrow> real \<Rightarrow> real list" where
  "latency_compensate cte epsi v steer throttle =
     (let delta = - steer;
          psi = delta;
          px = v * cos psi * latency;
          py = v * sin psi * latency;
          cte' = cte + v * sin epsi * latency;
          epsi' = epsi + v * delta * latency / Lf;
          psi' = psi + v * delta * latency / Lf;
          v' = v + throttle * latency
      in [px, py, psi', v', cte', epsi'])"

text \<open>
  \<^verbatim>\<open>calculate\<close>. The parameters are the least-squares solver, \<^verbatim>\<open>MPC::Solve\<close> and
  \<^verbatim>\<open>getClosestWaypoint\<close>. The result is the object with the two command values
  assigned from \<^verbatim>\<open>vars[0]\<close> and \<^verbatim>\<open>vars[1]\<close>.
\<close>

definition calculate ::
  "(real list list \<Rightarrow> real list \<Rightarrow> real list) \<Rightarrow> (real list \<Rightarrow> real list \<Rightarrow> real list) \<Rightarrow>
   (Lane \<Rightarrow> Pose \<Rightarrow> 64 word) \<Rightarrow> DbwMpc \<Rightarrow> fault + DbwMpc"
where
  "calculate qr_solve mpc_Solve getClosestWaypoint s =
     (let psi = orientation_z (pose s);
          closestWaypointIdx = getClosestWaypoint (waypoints s) (pose s)
      in case window_loop (waypoints s) closestWaypointIdx (closestWaypointIdx + 3) ([], []) of
           Inl e \<Rightarrow> Inl e
         | Inr (ptsx, ptsy) \<Rightarrow>
             (let px = position_x (pose s);
                  py = position_y (pose s);
                  v = linear_x (velocity s);
                  (xs, ys) = local_frame px py psi ptsx ptsy
              in case eigen_map xs 6 of
                   Inl e \<Rightarrow> Inl e
                 | Inr waypoints_x_eig \<Rightarrow>
                     (case eigen_map ys 6 of
                        Inl e \<Rightarrow> Inl e
                      | Inr waypoints_y_eig \<Rightarrow>
                          (case polyfit qr_solve waypoints_x_eig waypoints_y_eig 3 of
                             Inl e \<Rightarrow> Inl e
                           | Inr coeffs \<Rightarrow>
                               (case error_estimate coeffs of
                                  Inl e \<Rightarrow> Inl e
                                | Inr (cte, epsi) \<Rightarrow>
                                    (let state = latency_compensate cte epsi v
                                                   (steer_value s) (throttle_value s);
                                         vars = mpc_Solve state coeffs
                                     in case vec_read vars 0 of
                                          Inl e \<Rightarrow> Inl e
                                        | Inr v0 \<Rightarrow>
                                            (case vec_read vars 1 of
                                               Inl e \<Rightarrow> Inl e
                                             | Inr v1 \<Rightarrow>
                                                 Inr (s\<lparr>steer_value := v0,
                                                        throttle_value := v1\<rparr>))))))))"

subsection \<open>Reference definitions and example inputs\<close>

text \<open>The Euclidean distance of two points of the plane.\<close>

definition distance :: "real \<times> real \<Rightarrow> real \<times> real \<Rightarrow> real" where
  "distance p q = sqrt ((fst p - fst q)\<^sup>2 + (snd p - snd q)\<^sup>2)"

text \<open>
  The dispatch as the design document words it (not the source): the steering command,
  then a throttle command with the value when it is strictly positive, otherwise a brake
  command with the magnitude of the value.
\<close>

definition dispatch_by_magnitude :: "real \<Rightarrow> real \<Rightarrow> published list" where
  "dispatch_by_magnitude steering actuation =
     [Steering_publisher \<lparr>steer_enable = True, steering_wheel_angle_cmd = steering\<rparr>,
      if actuation > 0
      then Throttle_publisher \<lparr>throttle_enable = True, throttle_pedal_cmd_type = CMD_PERCENT,
              throttle_pedal_cmd = actuation\<rparr>
      else Brake_publisher \<lparr>brake_enable = True, brake_pedal_cmd_type = CMD_TORQUE,
              brake_pedal_cmd = \<bar>actuation\<bar>\<rparr>]"

text \<open>
  The bicycle-model projection as the design document words it (not the source), for a
  steering angle \<open>\<delta>\<close>, with the window 0.1 and the wheelbase 2.67, in the order
  \<open>px', py', \<psi>'', v', cte', epsi'\<close>.
\<close>

definition bicycle_projection :: "real \<Rightarrow> real \<Rightarrow> real \<Rightarrow> real \<Rightarrow> real \<Rightarrow> real list" where
  "bicycle_projection cte epsi v \<delta> throttle =
     [v * cos \<delta> * 0.1, v * sin \<delta> * 0.1, \<delta> + v * \<delta> * 0.1 / 2.67, v + throttle * 0.1,
      cte + v * sin epsi * 0.1, epsi + v * \<delta> * 0.1 / 2.67]"

text \<open>A waypoint at a position, every other field zero.\<close>

definition waypoint_at :: "real \<Rightarrow> real \<Rightarrow> Waypoint" where
  "waypoint_at a b =
     \<lparr>wp_pose = zero_Pose\<lparr>position_x := a, position_y := b\<rparr>, wp_twist = zero_Twist\<rparr>"

text \<open>
  An object in the Active state: five waypoints on the x axis, the vehicle at the origin
  with heading 0 and speed 10, the command values 0.5 and 0.3 stored.
\<close>

definition scenario :: DbwMpc where
  "scenario =
     \<lparr>waypoint_set = True, velocity_set = True, pose_set = True, enabled = True,
      waypoints = [waypoint_at 1 0, waypoint_at 2 0, waypoint_at 3 0, waypoint_at 4 0,
                   waypoint_at 5 0],
      pose = zero_Pose, velocity = zero_Twist\<lparr>linear_x := 10\<rparr>,
      steer_value = 1 / 2, throttle_value = 3 / 10\<rparr>"

text \<open>Storage whose scalar members all hold a non-zero byte pattern.\<close>

definition storage_nonzero :: DbwMpc where
  "storage_nonzero =
     \<lparr>waypoint_set = True, velocity_set = True, pose_set = True, enabled = True,
      waypoints = [], pose = zero_Pose, velocity = zero_Twist,
      steer_value = 1, throttle_value = 1\<rparr>"

section \<open>Properties\<close>

subsection \<open>Auxiliary facts\<close>

lemma foldl_add_sum:
  fixes f :: "nat \<Rightarrow> real"
  shows "foldl (\<lambda>r i. r + f i) a [0..<n] = a + (\<Sum>i<n. f i)"
  by (induction n) simp_all

lemma polyeval_at_zero:
  assumes "coeffs \<noteq> []"
  shows "polyeval coeffs 0 = coeffs ! 0"
proof -
  have "polyeval coeffs 0 = (\<Sum>i<length coeffs. coeffs ! i * 0 ^ i)"
    by (simp add: polyeval_def foldl_add_sum)
  also have "\<dots> = (\<Sum>i<length coeffs. if i = 0 then coeffs ! 0 else 0)"
    by (rule sum.cong) (auto simp: power_0_left)
  also have "\<dots> = coeffs ! 0"
    using assms by (simp add: sum.delta')
  finally show ?thesis .
qed

lemma matrix_row_powers: "matrix_row xj n = map (\<lambda>i. xj ^ i) [0..<Suc n]"
proof (induction n)
  case 0
  show ?case by (simp add: matrix_row_def)
next
  case (Suc n)
  have "matrix_row xj (Suc n) = matrix_row xj n @ [matrix_row xj n ! n * xj]"
    by (simp add: matrix_row_def)
  also have "matrix_row xj n ! n = xj ^ n"
    unfolding Suc.IH by (simp only: nth_map_upt) simp
  finally show ?case
    by (simp add: Suc.IH)
qed

lemma rotation_preserves_norm:
  fixes a b c s :: real
  assumes "c\<^sup>2 + s\<^sup>2 = 1"
  shows "(a * c - b * s)\<^sup>2 + (a * s + b * c)\<^sup>2 = a\<^sup>2 + b\<^sup>2"
proof -
  have "(a * c - b * s)\<^sup>2 + (a * s + b * c)\<^sup>2 = (a\<^sup>2 + b\<^sup>2) * (c\<^sup>2 + s\<^sup>2)"
    by (simp add: power2_eq_square algebra_simps)
  with assms show ?thesis by simp
qed

lemma local_distance:
  fixes px py psi :: real
  shows "distance ((gx - px) * cos (- psi) - (gy - py) * sin (- psi),
                   (gx - px) * sin (- psi) + (gy - py) * cos (- psi))
                  ((hx - px) * cos (- psi) - (hy - py) * sin (- psi),
                   (hx - px) * sin (- psi) + (hy - py) * cos (- psi))
         = distance (gx, gy) (hx, hy)"
proof -
  have cs: "(cos (- psi))\<^sup>2 + (sin (- psi))\<^sup>2 = 1"
    by (simp add: sin_cos_squared_add2)
  have dx: "(gx - px) * cos (- psi) - (gy - py) * sin (- psi)
          - ((hx - px) * cos (- psi) - (hy - py) * sin (- psi))
        = (gx - hx) * cos (- psi) - (gy - hy) * sin (- psi)"
    by (simp add: algebra_simps)
  have dy: "(gx - px) * sin (- psi) + (gy - py) * cos (- psi)
          - ((hx - px) * sin (- psi) + (hy - py) * cos (- psi))
        = (gx - hx) * sin (- psi) + (gy - hy) * cos (- psi)"
    by (simp add: algebra_simps)
  have "((gx - px) * cos (- psi) - (gy - py) * sin (- psi)
          - ((hx - px) * cos (- psi) - (hy - py) * sin (- psi)))\<^sup>2
        + ((gx - px) * sin (- psi) + (gy - py) * cos (- psi)
          - ((hx - px) * sin (- psi) + (hy - py) * cos (- psi)))\<^sup>2
        = ((gx - hx) * cos (- psi) - (gy - hy) * sin (- psi))\<^sup>2
          + ((gx - hx) * sin (- psi) + (gy - hy) * cos (- psi))\<^sup>2"
    by (simp only: dx dy)
  also have "\<dots> = (gx - hx)\<^sup>2 + (gy - hy)\<^sup>2"
    using cs by (rule rotation_preserves_norm)
  finally show ?thesis
    by (simp only: distance_def fst_conv snd_conv)
qed

lemma window_loop_lengths:
  "window_loop wps i bound (ptsx, ptsy) = Inr (xs, ys) \<Longrightarrow>
     length xs = length ptsx + (unat bound - unat i) \<and>
     length ys = length ptsy + (unat bound - unat i)"
proof (induction wps i bound "(ptsx, ptsy)" arbitrary: ptsx ptsy rule: window_loop.induct)
  case (1 wps i bound ptsx ptsy)
  show ?case
  proof (cases "i < bound")
    case False
    then have "unat bound - unat i = 0"
      by (simp add: word_less_nat_alt)
    with False "1.prems" show ?thesis
      by (simp add: window_loop.simps)
  next
    case True
    then have below: "unat i < unat bound"
      by (simp add: word_less_nat_alt)
    moreover have "unat bound < 2 ^ 64"
      using unsigned_less [of bound] by simp
    ultimately have "unat i + unat (1 :: 64 word) < 2 ^ LENGTH(64)"
      by simp
    then have "unat (i + 1) = unat i + unat (1 :: 64 word)"
      by (simp only: unat_add_lem)
    then have step: "unat (i + 1) = Suc (unat i)"
      by simp
    from True "1.prems" obtain w where w: "vec_read wps (unat i) = Inr w"
      and rec: "window_loop wps (i + 1) bound
                  (ptsx @ [position_x (wp_pose w)], ptsy @ [position_y (wp_pose w)]) = Inr (xs, ys)"
      by (auto simp: window_loop.simps [of wps i] split: sum.splits)
    from "1.hyps" [OF True w rec] step below show ?thesis
      by (simp only: length_append list.size) arith
  qed
qed

lemma window_size:
  fixes c :: "64 word"
  shows "unat (c + 3) - unat c \<le> 3"
proof (cases "c \<le> c + 3")
  case True
  then have "unat (c + 3) = unat c + unat (3 :: 64 word)"
    by (simp only: unat_plus_simple)
  then show ?thesis by simp
next
  case False
  then have "unat (c + 3) < unat c"
    by (simp add: word_le_nat_alt)
  then show ?thesis by simp
qed

lemma window_loop_fault:
  assumes "i < bound" and "length wps \<le> unat i"
  shows "window_loop wps i bound (ptsx, ptsy) = Inl (ReadPastEnd (length wps))"
  using assms by (subst window_loop.simps) (simp add: vec_read_def)

lemma window_loop_next:
  assumes "i < bound" and "unat i < length wps"
  shows "window_loop wps i bound (ptsx, ptsy) =
           window_loop wps (i + 1) bound
             (ptsx @ [position_x (wp_pose (wps ! unat i))],
              ptsy @ [position_y (wp_pose (wps ! unat i))])"
  using assms by (subst window_loop.simps) (simp add: vec_read_def)

text \<open>Where the sum \<^verbatim>\<open>closestWaypointIdx+3\<close> does not wrap and exceeds the number of
  waypoints, the first loop reads past the end of the waypoints.\<close>

lemma window_reads_past_end:
  fixes c :: "64 word"
  assumes "c \<le> c + 3" and "length wps < unat c + 3"
  shows "window_loop wps c (c + 3) ([], []) = Inl (ReadPastEnd (length wps))"
proof -
  from assms(1) have u3: "unat (c + 3) = unat c + 3"
    using unat_plus_simple [of c 3] by simp
  moreover have "unat (c + 3) < 2 ^ 64"
    using unsigned_less [of "c + 3"] by simp
  ultimately have room: "unat c + 3 < 2 ^ 64"
    by simp
  then have "unat c + unat (1 :: 64 word) < 2 ^ LENGTH(64)"
    and "unat c + unat (2 :: 64 word) < 2 ^ LENGTH(64)"
    by simp_all
  then have "unat (c + 1) = unat c + unat (1 :: 64 word)"
    and "unat (c + 2) = unat c + unat (2 :: 64 word)"
    by (simp_all only: unat_add_lem)
  then have u1: "unat (c + 1) = unat c + 1" and u2: "unat (c + 2) = unat c + 2"
    by simp_all
  have lt0: "c < c + 3" and lt1: "c + 1 < c + 3" and lt2: "c + 2 < c + 3"
    by (simp_all add: word_less_nat_alt u1 u2 u3)
  have two: "c + 1 + 1 = c + 2"
    by simp
  from assms(2) consider "length wps \<le> unat c" | "length wps = unat c + 1"
    | "length wps = unat c + 2"
    by linarith
  then show ?thesis
  proof cases
    case 1
    with lt0 show ?thesis
      by (rule window_loop_fault)
  next
    case 2
    then have "window_loop wps c (c + 3) ([], []) =
        window_loop wps (c + 1) (c + 3)
          ([] @ [position_x (wp_pose (wps ! unat c))], [] @ [position_y (wp_pose (wps ! unat c))])"
      using lt0 by (intro window_loop_next) simp_all
    also have "\<dots> = Inl (ReadPastEnd (length wps))"
      using lt1 2 by (intro window_loop_fault) (simp_all add: u1)
    finally show ?thesis .
  next
    case 3
    then have "window_loop wps c (c + 3) ([], []) =
        window_loop wps (c + 1) (c + 3)
          ([] @ [position_x (wp_pose (wps ! unat c))], [] @ [position_y (wp_pose (wps ! unat c))])"
      using lt0 by (intro window_loop_next) simp_all
    also have "\<dots> = window_loop wps (c + 1 + 1) (c + 3)
          (([] @ [position_x (wp_pose (wps ! unat c))]) @ [position_x (wp_pose (wps ! unat (c + 1)))],
           ([] @ [position_y (wp_pose (wps ! unat c))]) @ [position_y (wp_pose (wps ! unat (c + 1)))])"
      using lt1 3 by (intro window_loop_next) (simp_all add: u1)
    also have "\<dots> = Inl (ReadPastEnd (length wps))"
      unfolding two using lt2 3 by (intro window_loop_fault) (simp_all add: u2)
    finally show ?thesis .
  qed
qed

text \<open>The first loop collects at most three points, the views ask for six: whatever the
  waypoints, the pose and the collaborators, \<^verbatim>\<open>calculate\<close> reads past the end of a
  buffer.\<close>

lemma calculate_always_faults:
  "\<exists>e. calculate qr_solve mpc_Solve getClosestWaypoint s = Inl e"
proof (cases "window_loop (waypoints s) (getClosestWaypoint (waypoints s) (pose s))
                (getClosestWaypoint (waypoints s) (pose s) + 3) ([], [])")
  case (Inl e)
  then show ?thesis by (simp add: calculate_def)
next
  case (Inr pts)
  obtain ptsx ptsy where pts: "pts = (ptsx, ptsy)" by (cases pts)
  from window_loop_lengths [OF Inr [unfolded pts]] window_size
  have short: "length ptsx \<le> 3"
    by (metis add_0 list.size(3))
  obtain xs ys where lf: "local_frame (position_x (pose s)) (position_y (pose s))
                (orientation_z (pose s)) ptsx ptsy = (xs, ys)"
    by (cases "local_frame (position_x (pose s)) (position_y (pose s))
                (orientation_z (pose s)) ptsx ptsy")
  then have "length xs = length ptsx"
    by (auto simp: local_frame_def)
  with short have "eigen_map xs 6 = Inl (ReadPastEnd (length xs))"
    by (simp add: eigen_map_def)
  with Inr pts lf show ?thesis
    by (simp add: calculate_def Let_def)
qed

lemma callback_keeps_commands:
  "steer_value (callback m s) = steer_value s \<and> throttle_value (callback m s) = throttle_value s"
  by (cases m) (simp_all add: onEnabled_def onWaypoints_def onPose_def onVelocity_def)

lemma spinOnce_keeps_commands:
  "steer_value (spinOnce pending s) = steer_value s \<and>
   throttle_value (spinOnce pending s) = throttle_value s"
  unfolding spinOnce_def
  by (induction pending arbitrary: s) (simp_all add: callback_keeps_commands)

text \<open>No iteration of the loop of \<^verbatim>\<open>run\<close> assigns the two command values.\<close>

lemma loop_iteration_keeps_commands:
  "steer_value (fst (loop_iteration pending s)) = steer_value s \<and>
   throttle_value (fst (loop_iteration pending s)) = throttle_value s"
  by (simp add: loop_iteration_def Let_def spinOnce_keeps_commands)

text \<open>An iteration that publishes anything has found all four flags true.\<close>

lemma no_command_unless_ready:
  assumes "loop_iteration pending s = (s', out)" and "out \<noteq> []"
  shows "enabled s' \<and> velocity_set s' \<and> waypoint_set s' \<and> pose_set s'"
  using assms by (auto simp: loop_iteration_def Let_def split: if_splits)

subsection \<open>The error estimate\<close>

text \<open>
  Claim C8. For a coefficient vector with at least two entries, the cross-track error
  computed by \<^verbatim>\<open>polyeval(coeffs, 0)\<close> is the entry of degree 0 exactly, and the heading
  error is the negated arctangent of the entry of degree 1.
\<close>

theorem error_estimate_cte_epsi:
  assumes "2 \<le> length coeffs"
  shows "polyeval coeffs 0 = coeffs ! 0 \<and>
         error_estimate coeffs = Inr (coeffs ! 0, - arctan (coeffs ! 1))"
proof -
  from assms have "coeffs \<noteq> []" by auto
  then have "polyeval coeffs 0 = coeffs ! 0" by (rule polyeval_at_zero)
  with assms show ?thesis by (simp add: error_estimate_def)
qed

text \<open>The theorem at the coefficients \<open>2 + x + 5x\<^sup>2 + 7x\<^sup>3\<close>.\<close>

theorem error_estimate_cte_epsi_witness:
  "2 \<le> length [2, 1, 5, 7 :: real] \<and> polyeval [2, 1, 5, 7] 0 = 2 \<and>
   error_estimate [2, 1, 5, 7] = Inr (2, - arctan 1)"
  using error_estimate_cte_epsi [of "[2, 1, 5, 7]"] by simp

subsection \<open>The frame transformation\<close>

text \<open>
  Claim C9. The second loop of \<^verbatim>\<open>calculate\<close> maps the global points, given as two
  parallel sequences, to as many local points, in the same order, by
  \<open>x = \<Delta>x cos(-\<psi>) - \<Delta>y sin(-\<psi>)\<close> and \<open>y = \<Delta>x sin(-\<psi>) + \<Delta>y cos(-\<psi>)\<close>, and the distance
  between the images of any two of the points is the distance between the points.
\<close>

theorem local_frame_rigid:
  assumes "length ptsy = length ptsx"
    and "local_frame px py psi ptsx ptsy = (xs, ys)"
  shows "length xs = length ptsx \<and> length ys = length ptsx \<and>
    (\<forall>i<length ptsx.
       xs ! i = (ptsx ! i - px) * cos (- psi) - (ptsy ! i - py) * sin (- psi) \<and>
       ys ! i = (ptsx ! i - px) * sin (- psi) + (ptsy ! i - py) * cos (- psi)) \<and>
    (\<forall>i<length ptsx. \<forall>j<length ptsx.
       distance (xs ! i, ys ! i) (xs ! j, ys ! j)
         = distance (ptsx ! i, ptsy ! i) (ptsx ! j, ptsy ! j))"
proof -
  from assms(2)
  have xs: "xs = map (\<lambda>i. (ptsx ! i - px) * cos (- psi) - (ptsy ! i - py) * sin (- psi))
                   [0..<length ptsx]"
    and ys: "ys = map (\<lambda>i. (ptsx ! i - px) * sin (- psi) + (ptsy ! i - py) * cos (- psi))
                   [0..<length ptsx]"
    by (simp_all add: local_frame_def Let_def)
  have len: "length xs = length ptsx" "length ys = length ptsx"
    by (simp_all add: xs ys)
  have pt: "xs ! i = (ptsx ! i - px) * cos (- psi) - (ptsy ! i - py) * sin (- psi) \<and>
       ys ! i = (ptsx ! i - px) * sin (- psi) + (ptsy ! i - py) * cos (- psi)"
    if "i < length ptsx" for i
    using that by (simp add: xs ys)
  have "distance (xs ! i, ys ! i) (xs ! j, ys ! j)
          = distance (ptsx ! i, ptsy ! i) (ptsx ! j, ptsy ! j)"
    if "i < length ptsx" "j < length ptsx" for i j
    using pt [OF that(1)] pt [OF that(2)] by (simp only: local_distance)
  with len pt show ?thesis by blast
qed

text \<open>
  The theorem for a vehicle at \<open>(1, 2)\<close> with heading \<open>\<pi>/2\<close> and the points \<open>(1, 3)\<close>, one
  metre ahead, and \<open>(3, 2)\<close>, two metres to the right: the local points are \<open>(1, 0)\<close> and
  \<open>(0, -2)\<close>, and both pairs are \<open>\<surd>5\<close> apart.
\<close>

theorem local_frame_rigid_witness:
  "length [3, 2 :: real] = length [1, 3 :: real] \<and>
   local_frame 1 2 (pi / 2) [1, 3] [3, 2] = ([1, 0], [0, - 2]) \<and>
   distance (1, 0) (0, - 2) = distance (1, 3) (3, 2)"
proof -
  have lf: "local_frame 1 2 (pi / 2) [1, 3] [3, 2] = ([1, 0], [0, - 2])"
    by (simp add: local_frame_def upt_conv_Cons)
  have len: "length [3, 2 :: real] = length [1, 3 :: real]"
    by simp
  have all: "\<forall>i<length [1, 3 :: real]. \<forall>j<length [1, 3 :: real].
          distance ([1, 0] ! i, [0, - 2] ! i) ([1, 0] ! j, [0, - 2] ! j)
          = distance ([1, 3] ! i, [3, 2] ! i) ([1, 3] ! j, [3, 2] ! j)"
    using local_frame_rigid [OF len lf] by blast
  have "(0 :: nat) < length [1, 3 :: real]" and "(1 :: nat) < length [1, 3 :: real]"
    by simp_all
  with all have "distance ([1, 0] ! 0, [0, - 2] ! 0) ([1, 0] ! 1, [0, - 2] ! 1)
          = distance ([1, 3] ! 0, [3, 2] ! 0) ([1, 3] ! 1, [3, 2] ! 1)"
    by blast
  with lf len show ?thesis
    by simp
qed

subsection \<open>The callbacks\<close>

text \<open>
  Claim C10. Each callback assigns the stored value of its own channel and the flag of
  that channel and nothing else: the values and flags of the three other channels and
  the two stored command values are those of before the call.
\<close>

theorem callbacks_frame:
  "enabled (onEnabled b s) = b \<and>
   waypoint_set (onEnabled b s) = waypoint_set s \<and> waypoints (onEnabled b s) = waypoints s \<and>
   pose_set (onEnabled b s) = pose_set s \<and> pose (onEnabled b s) = pose s \<and>
   velocity_set (onEnabled b s) = velocity_set s \<and> velocity (onEnabled b s) = velocity s \<and>
   steer_value (onEnabled b s) = steer_value s \<and>
   throttle_value (onEnabled b s) = throttle_value s \<and>
   waypoints (onWaypoints l s) = l \<and> waypoint_set (onWaypoints l s) \<and>
   enabled (onWaypoints l s) = enabled s \<and>
   pose_set (onWaypoints l s) = pose_set s \<and> pose (onWaypoints l s) = pose s \<and>
   velocity_set (onWaypoints l s) = velocity_set s \<and>
   velocity (onWaypoints l s) = velocity s \<and>
   steer_value (onWaypoints l s) = steer_value s \<and>
   throttle_value (onWaypoints l s) = throttle_value s \<and>
   pose (onPose p s) = p \<and> pose_set (onPose p s) \<and>
   enabled (onPose p s) = enabled s \<and>
   waypoint_set (onPose p s) = waypoint_set s \<and> waypoints (onPose p s) = waypoints s \<and>
   velocity_set (onPose p s) = velocity_set s \<and> velocity (onPose p s) = velocity s \<and>
   steer_value (onPose p s) = steer_value s \<and>
   throttle_value (onPose p s) = throttle_value s \<and>
   velocity (onVelocity t s) = t \<and> velocity_set (onVelocity t s) \<and>
   enabled (onVelocity t s) = enabled s \<and>
   waypoint_set (onVelocity t s) = waypoint_set s \<and>
   waypoints (onVelocity t s) = waypoints s \<and>
   pose_set (onVelocity t s) = pose_set s \<and> pose (onVelocity t s) = pose s \<and>
   steer_value (onVelocity t s) = steer_value s \<and>
   throttle_value (onVelocity t s) = throttle_value s"
  by (simp add: onEnabled_def onWaypoints_def onPose_def onVelocity_def)

subsection \<open>polyfit\<close>

text \<open>
  Claim C7, as amended. A fit whose degree exceeds the number of samples less one
  (\<open>d > n - 1\<close>) is rejected by the assertion of \<^verbatim>\<open>polyfit\<close>. A fit with \<open>d = n - 1\<close>, with
  \<open>d\<close> at least 1 and as many y values as x values, is accepted: the solver is called
  on the matrix of the powers \<open>0\<close> to \<open>d\<close> of the samples.
\<close>

theorem polyfit_rejects_above_n_minus_1:
  "(int (length xvals) - 1 < order \<longrightarrow>
      polyfit qr_solve xvals yvals order = Inl AssertionFailed) \<and>
   (length xvals = length yvals \<and> 1 \<le> order \<and> order = int (length xvals) - 1 \<longrightarrow>
      polyfit qr_solve xvals yvals order =
        Inr (qr_solve (map (\<lambda>xj. map (\<lambda>i. xj ^ i) [0..<Suc (nat order)]) xvals) yvals))"
  by (simp add: polyfit_def matrix_row_powers)

text \<open>The theorem at degree 3 with three samples (rejected) and with four samples
  (accepted; the solver here returns the third row of the matrix it is given).\<close>

theorem polyfit_rejects_above_n_minus_1_witness:
  "int (length [0, 1, 2 :: real]) - 1 < 3 \<and>
   polyfit (\<lambda>A b. b) [0, 1, 2] [0, 1, 8] 3 = Inl AssertionFailed \<and>
   length [0, 1, 2, 3 :: real] = length [0, 1, 8, 27 :: real] \<and> (1 :: int) \<le> 3 \<and>
   3 = int (length [0, 1, 2, 3 :: real]) - 1 \<and>
   polyfit (\<lambda>A b. A ! 2) [0, 1, 2, 3] [0, 1, 8, 27] 3 = Inr [1, 2, 4, 8]"
  using polyfit_rejects_above_n_minus_1 [of "[0, 1, 2]" 3 "\<lambda>A b. b" "[0, 1, 8]"]
    polyfit_rejects_above_n_minus_1 [of "[0, 1, 2, 3]" 3 "\<lambda>A b. A ! 2" "[0, 1, 8, 27]"]
  by (simp add: upt_conv_Cons)

text \<open>
  Claim C7 as first stated fails at \<open>d = n - 1\<close>: with four samples and degree 3 the
  assertion holds and the fit is solved (the solver here returns its right-hand side).
\<close>

theorem polyfit_accepts_n_minus_1:
  "(3 :: int) \<ge> int (length [0, 1, 2, 3 :: real]) - 1 \<and>
   polyfit (\<lambda>A b. b) [0, 1, 2, 3] [0, 1, 8, 27] 3 = Inr [0, 1, 8, 27]"
  by (simp add: polyfit_def)

subsection \<open>The latency compensation\<close>

text \<open>
  Claim C6, as amended. With \<open>\<delta>\<close> the negation of the stored steering value, the state
  handed to the solver is \<open>px' = v cos \<delta> L\<close>, \<open>py' = v sin \<delta> L\<close>, \<open>\<psi>'' = \<delta> + v \<delta> L / Lf\<close>,
  \<open>v' = v + throttle L\<close>, \<open>cte' = cte + v sin(epsi) L\<close>, \<open>epsi' = epsi + v \<delta> L / Lf\<close>, with
  \<open>L = 0.1\<close> and \<open>Lf = 2.67\<close>. With the stored steering value and throttle value both 0,
  the heading is 0 and the speed \<open>v\<close>, as before, \<open>py' = 0\<close> and \<open>px' = v L\<close>.
\<close>

theorem latency_compensate_negated_steering:
  "latency_compensate cte epsi v steer throttle =
     (let \<delta> = - steer
      in [v * cos \<delta> * 0.1, v * sin \<delta> * 0.1, \<delta> + v * \<delta> * 0.1 / 2.67, v + throttle * 0.1,
          cte + v * sin epsi * 0.1, epsi + v * \<delta> * 0.1 / 2.67]) \<and>
   latency_compensate cte epsi v 0 0 = [v * 0.1, 0, 0, v, cte + v * sin epsi * 0.1, epsi]"
  by (simp add: latency_compensate_def latency_def Lf_def)

text \<open>
  Claim C6 as first stated, with \<open>\<delta>\<close> the steering angle of the last command itself,
  fails: at speed 10 and a stored steering value of 1 the source projects the heading
  \<open>-1 - 100/267\<close>, the stated equations give \<open>1 + 100/267\<close>.
\<close>

theorem latency_steering_sign_counterexample:
  "latency_compensate 0 0 10 1 0 ! 2 = - 1 - 100 / 267 \<and>
   bicycle_projection 0 0 10 1 0 ! 2 = 1 + 100 / 267 \<and>
   latency_compensate 0 0 10 1 0 \<noteq> bicycle_projection 0 0 10 1 0"
  by (simp add: latency_compensate_def bicycle_projection_def latency_def Lf_def)

subsection \<open>The command dispatch\<close>

text \<open>
  Claim C4, as amended. An iteration of the loop that finds all four flags true
  publishes a steering command with the stored steering value, and exactly one of a
  throttle and a brake command: a throttle command of type percent with the stored
  actuation value when that value is strictly positive, otherwise a brake command of
  type torque with the stored actuation value itself, sign included.
\<close>

theorem dispatch_exclusive:
  assumes "loop_iteration pending s = (s', out)"
    and "enabled s' \<and> velocity_set s' \<and> waypoint_set s' \<and> pose_set s'"
  shows "out =
      [Steering_publisher \<lparr>steer_enable = True, steering_wheel_angle_cmd = steer_value s'\<rparr>,
       if throttle_value s' > 0
       then Throttle_publisher \<lparr>throttle_enable = True, throttle_pedal_cmd_type = CMD_PERCENT,
              throttle_pedal_cmd = throttle_value s'\<rparr>
       else Brake_publisher \<lparr>brake_enable = True, brake_pedal_cmd_type = CMD_TORQUE,
              brake_pedal_cmd = throttle_value s'\<rparr>] \<and>
    length (filter is_steering out) = 1 \<and>
    length (filter is_throttle out) + length (filter is_brake out) = 1"
  using assms by (auto simp: loop_iteration_def Let_def publish_commands_def)

text \<open>The theorem for an iteration that receives the enabling message, with the
  actuation value \<open>-1\<close> stored: the brake command carries \<open>-1\<close>.\<close>

theorem dispatch_exclusive_witness:
  "loop_iteration [Enabled_msg True] (scenario\<lparr>enabled := False, throttle_value := - 1\<rparr>)
     = (scenario\<lparr>throttle_value := - 1\<rparr>,
        [Steering_publisher \<lparr>steer_enable = True, steering_wheel_angle_cmd = 1 / 2\<rparr>,
         Brake_publisher \<lparr>brake_enable = True, brake_pedal_cmd_type = CMD_TORQUE,
           brake_pedal_cmd = - 1\<rparr>]) \<and>
   enabled (scenario\<lparr>throttle_value := - 1\<rparr>) \<and>
   velocity_set (scenario\<lparr>throttle_value := - 1\<rparr>) \<and>
   waypoint_set (scenario\<lparr>throttle_value := - 1\<rparr>) \<and>
   pose_set (scenario\<lparr>throttle_value := - 1\<rparr>) \<and>
   length (filter is_throttle
     [Steering_publisher \<lparr>steer_enable = True, steering_wheel_angle_cmd = 1 / 2\<rparr>,
      Brake_publisher \<lparr>brake_enable = True, brake_pedal_cmd_type = CMD_TORQUE,
        brake_pedal_cmd = - 1\<rparr>])
   + length (filter is_brake
     [Steering_publisher \<lparr>steer_enable = True, steering_wheel_angle_cmd = 1 / 2\<rparr>,
      Brake_publisher \<lparr>brake_enable = True, brake_pedal_cmd_type = CMD_TORQUE,
        brake_pedal_cmd = - 1\<rparr>]) = 1"
proof -
  have it: "loop_iteration [Enabled_msg True]
              (scenario\<lparr>enabled := False, throttle_value := - 1\<rparr>)
     = (scenario\<lparr>throttle_value := - 1\<rparr>,
        [Steering_publisher \<lparr>steer_enable = True, steering_wheel_angle_cmd = 1 / 2\<rparr>,
         Brake_publisher \<lparr>brake_enable = True, brake_pedal_cmd_type = CMD_TORQUE,
           brake_pedal_cmd = - 1\<rparr>])"
    by (simp add: loop_iteration_def spinOnce_def onEnabled_def publish_commands_def
        scenario_def)
  have active: "enabled (scenario\<lparr>throttle_value := - 1\<rparr>) \<and>
      velocity_set (scenario\<lparr>throttle_value := - 1\<rparr>) \<and>
      waypoint_set (scenario\<lparr>throttle_value := - 1\<rparr>) \<and>
      pose_set (scenario\<lparr>throttle_value := - 1\<rparr>)"
    by (simp add: scenario_def)
  from dispatch_exclusive [OF it active] it active show ?thesis
    by simp
qed

text \<open>
  Claim C4 as first stated fails on the brake command: with the actuation value \<open>-1\<close>
  the command carries \<open>-1\<close>, not the magnitude \<open>1\<close>.
\<close>

theorem brake_magnitude_counterexample:
  "snd (loop_iteration [] (scenario\<lparr>throttle_value := - 1\<rparr>)) =
     [Steering_publisher \<lparr>steer_enable = True, steering_wheel_angle_cmd = 1 / 2\<rparr>,
      Brake_publisher \<lparr>brake_enable = True, brake_pedal_cmd_type = CMD_TORQUE,
        brake_pedal_cmd = - 1\<rparr>] \<and>
   snd (loop_iteration [] (scenario\<lparr>throttle_value := - 1\<rparr>)) \<noteq>
     dispatch_by_magnitude (1 / 2) (- 1)"
  by (simp add: loop_iteration_def spinOnce_def publish_commands_def scenario_def
      dispatch_by_magnitude_def)

subsection \<open>The loop of run and calculate\<close>

text \<open>
  Claim C1 does not hold of the source: the loop of \<^verbatim>\<open>run\<close> does not call
  \<^verbatim>\<open>calculate\<close>, and nothing else does. Three iterations in the Active state, with no
  message pending, publish three times the command values that were stored before the
  first of them.
\<close>

theorem run_publishes_stored_values:
  "run [[], [], []] scenario =
     [[Steering_publisher \<lparr>steer_enable = True, steering_wheel_angle_cmd = 1 / 2\<rparr>,
       Throttle_publisher \<lparr>throttle_enable = True, throttle_pedal_cmd_type = CMD_PERCENT,
         throttle_pedal_cmd = 3 / 10\<rparr>],
      [Steering_publisher \<lparr>steer_enable = True, steering_wheel_angle_cmd = 1 / 2\<rparr>,
       Throttle_publisher \<lparr>throttle_enable = True, throttle_pedal_cmd_type = CMD_PERCENT,
         throttle_pedal_cmd = 3 / 10\<rparr>],
      [Steering_publisher \<lparr>steer_enable = True, steering_wheel_angle_cmd = 1 / 2\<rparr>,
       Throttle_publisher \<lparr>throttle_enable = True, throttle_pedal_cmd_type = CMD_PERCENT,
         throttle_pedal_cmd = 3 / 10\<rparr>]]"
  by (simp add: loop_iteration_def spinOnce_def publish_commands_def scenario_def)

text \<open>
  Claim C2 does not hold of the source: with five waypoints and the nearest one the
  last (index 4), the first loop of \<^verbatim>\<open>calculate\<close> reads index 4 and then index 5, past
  the end, with no check; no assertion fails before.
\<close>

theorem calculate_reads_past_waypoints:
  "length (waypoints scenario) = 5 \<and>
   window_loop (waypoints scenario) 4 (4 + 3) ([], []) = Inl (ReadPastEnd 5) \<and>
   calculate qr_solve mpc_Solve (\<lambda>wps p. 4) scenario = Inl (ReadPastEnd 5)"
  by (simp add: calculate_def scenario_def vec_read_def window_loop.simps)

text \<open>
  Claim C3 does not hold of the source: with the nearest waypoint the first of five,
  the window has three points and so has the local frame, but the two views handed to
  \<^verbatim>\<open>polyfit\<close> are six long: the fit reads three entries past the end of each buffer.
  Three samples do not exceed the degree 3 either.
\<close>

theorem calculate_fit_reads_past_local_points:
  "window_loop (waypoints scenario) 0 (0 + 3) ([], []) = Inr ([1, 2, 3], [0, 0, 0]) \<and>
   local_frame 0 0 0 [1, 2, 3] [0, 0, 0] = ([1, 2, 3], [0, 0, 0]) \<and>
   eigen_map [1, 2, 3] 6 = Inl (ReadPastEnd 3) \<and>
   polyfit qr_solve [1, 2, 3] [0, 0, 0] 3 = Inl AssertionFailed \<and>
   calculate qr_solve mpc_Solve (\<lambda>wps p. 0) scenario = Inl (ReadPastEnd 3)"
proof (intro conjI)
  show "window_loop (waypoints scenario) 0 (0 + 3) ([], []) = Inr ([1, 2, 3], [0, 0, 0])"
    by (simp add: scenario_def vec_read_def waypoint_at_def zero_Pose_def window_loop.simps)
  show "local_frame 0 0 0 [1, 2, 3] [0, 0, 0] = ([1, 2, 3], [0, 0, 0])"
    by (simp add: local_frame_def upt_conv_Cons)
  show "eigen_map [1, 2, 3] 6 = Inl (ReadPastEnd 3)"
    by (simp add: eigen_map_def)
  show "polyfit qr_solve [1, 2, 3] [0, 0, 0] 3 = Inl AssertionFailed"
    by (simp add: polyfit_def)
  show "calculate qr_solve mpc_Solve (\<lambda>wps p. 0) scenario = Inl (ReadPastEnd 3)"
    by (simp add: calculate_def scenario_def vec_read_def waypoint_at_def zero_Pose_def
        local_frame_def eigen_map_def window_loop.simps)
qed

subsection \<open>The flags at construction\<close>

text \<open>
  Claim C5 does not hold of the source: the constructor initialises \<^verbatim>\<open>enabled\<close> only.
  Built in storage that holds non-zero bytes, the object has its three other flags true
  from the start, and the first iteration that receives an enabling message publishes
  commands although no waypoints, pose or velocity message was ever received.
\<close>

theorem uninitialised_flags_publish:
  "waypoint_set (DbwMpc_ctor storage_nonzero) \<and> velocity_set (DbwMpc_ctor storage_nonzero) \<and>
   pose_set (DbwMpc_ctor storage_nonzero) \<and> \<not> enabled (DbwMpc_ctor storage_nonzero) \<and>
   run [[Enabled_msg True]] (DbwMpc_ctor storage_nonzero) =
     [[Steering_publisher \<lparr>steer_enable = True, steering_wheel_angle_cmd = 1\<rparr>,
       Throttle_publisher \<lparr>throttle_enable = True, throttle_pedal_cmd_type = CMD_PERCENT,
         throttle_pedal_cmd = 1\<rparr>]]"
  by (simp add: DbwMpc_ctor_def storage_nonzero_def loop_iteration_def spinOnce_def
      onEnabled_def publish_commands_def)

end
